theory Spec2Isabelle
  imports Main "HOL-Library.Sublist" "HOL-Library.AList"
begin

section \<open>Values held in a table\<close>

text \<open>
  The cleaning and labeling functions work on pandas tables. A cell of such a table holds
  a Python string, a number, a timestamp, a list of strings (the parsed symbol list) or
  one of the three markers pandas uses for "no value". Numbers and timestamps are kept
  abstract (the type parameters \<open>'n\<close> and \<open>'t\<close>): the functions under study never
  compute with them, they only obtain them from the parsers of the library.
  Strings are lists of 8-bit characters, read as the code points below 256.
\<close>

datatype missing = NoneV | NaN | NaT

datatype ('n, 't) cell =
    Str string
  | Num 'n
  | Ts 't
  | Lst "string list"
  | Missing missing

fun isinstance_str :: "('n, 't) cell \<Rightarrow> bool" where
  "isinstance_str (Str s) = True"
| "isinstance_str _ = False"

fun isna :: "('n, 't) cell \<Rightarrow> bool" where
  "isna (Missing m) = True"
| "isna _ = False"

section \<open>Python string operations\<close>

text \<open>\<open>str.lower()\<close> on the code points below 256: the ASCII capitals and the
  Latin-1 capitals (all of 192..222 but the multiplication sign 215) move up by 32.\<close>

definition lower_char :: "char \<Rightarrow> char" where
  "lower_char c =
     (let n = (of_char c :: nat)
      in if (65 \<le> n \<and> n \<le> 90) \<or> (192 \<le> n \<and> n \<le> 222 \<and> n \<noteq> 215)
         then char_of (n + 32) else c)"

definition lower :: "string \<Rightarrow> string" where
  "lower s = map lower_char s"

text \<open>The characters \<open>str.strip()\<close> removes: Python's whitespace below 256.\<close>

definition is_space :: "char \<Rightarrow> bool" where
  "is_space c =
     (let n = (of_char c :: nat)
      in (9 \<le> n \<and> n \<le> 13) \<or> (28 \<le> n \<and> n \<le> 32) \<or> n = 133 \<or> n = 160)"

definition strip :: "string \<Rightarrow> string" where
  "strip s = rev (dropWhile is_space (rev (dropWhile is_space s)))"

text \<open>\<open>s.startswith(p)\<close>.\<close>

definition startswith :: "string \<Rightarrow> string \<Rightarrow> bool" where
  "startswith s p = (take (length p) s = p)"

text \<open>\<open>k in s\<close> for strings: \<open>k\<close> occurs in \<open>s\<close> as a contiguous run.\<close>

fun contains :: "string \<Rightarrow> string \<Rightarrow> bool" where
  "contains [] k = (k = [])"
| "contains (c # cs) k = (startswith (c # cs) k \<or> contains cs k)"

text \<open>\<open>s.split(d)\<close> for a one-character separator. The result is never empty:
  the empty string splits into one empty piece.\<close>

fun split :: "char \<Rightarrow> string \<Rightarrow> string list" where
  "split d [] = [[]]"
| "split d (c # cs) =
     (if c = d then [] # split d cs
      else (case split d cs of
              w # ws \<Rightarrow> (c # w) # ws
            | [] \<Rightarrow> [[c]]))"

section \<open>Keyword sentiment labeling\<close>

definition POSITIVE_KEYWORDS :: "string list" where
  "POSITIVE_KEYWORDS =
     [''surge'', ''optimism'', ''grants'', ''expand'', ''lists'', ''reaches'',
      ''stabilization'', ''breakout'', ''gain'', ''grow'', ''positive'', ''support'']"

definition NEGATIVE_KEYWORDS :: "string list" where
  "NEGATIVE_KEYWORDS =
     [''dip'', ''uncertainty'', ''weighs'', ''delays'', ''volatile'', ''concerns'',
      ''negative'', ''correction'', ''fear'', ''drop'', ''risk'']"

text \<open>\<open>sum(1 for keyword in KEYWORDS if keyword in text_lower)\<close>.\<close>

definition keyword_count :: "string list \<Rightarrow> string \<Rightarrow> nat" where
  "keyword_count keywords text_lower =
     sum_list (map (\<lambda>keyword. 1) (filter (\<lambda>keyword. contains text_lower keyword) keywords))"

text \<open>
  The function returns a label and \<open>float(count)\<close>. A count is at most 12, so the
  float is that natural number exactly, and the model returns the number itself.
\<close>

fun label_sentiment_keywords :: "('n, 't) cell \<Rightarrow> string \<times> nat" where
  "label_sentiment_keywords (Str text) =
     (let text_lower = lower text;
          pos_count = keyword_count POSITIVE_KEYWORDS text_lower;
          neg_count = keyword_count NEGATIVE_KEYWORDS text_lower
      in if pos_count > neg_count then (''Positive'', pos_count)
         else if neg_count > pos_count then (''Negative'', neg_count)
         else (''Neutral'', 0))"
| "label_sentiment_keywords _ = (''Neutral'', 0)"

text \<open>
  The classification rule in the words of the specification, for comparison with the
  function above: the number of markers of a vocabulary that occur somewhere in the
  lower-cased text, each marker counted once however often it recurs.
\<close>

definition markers_found :: "string list \<Rightarrow> string \<Rightarrow> nat" where
  "markers_found markers text =
     card {m \<in> set markers. \<exists>pre suf. lower text = pre @ m @ suf}"

section \<open>The library functions the cleaners call\<close>

text \<open>
  What pandas does inside \<open>to_datetime\<close>, \<open>to_numeric\<close>, \<open>astype(str)\<close> and the
  \<open>.str\<close> accessor is not part of the repository, and it differs between versions of
  the library. The parts the source relies on are written out below; the parts that are
  the library's own business are the fields of a record every function takes as its first
  argument:
  \<^item> the two conversions called with \<open>errors='coerce'\<close>. Each is a function of the whole
    column (pandas infers a date format from the first value, and picks the numeric type
    from all values), and each may still raise: the result is the name of the exception
    or the converted column;
  \<^item> the string forms of numbers, timestamps and lists;
  \<^item> whether \<open>astype(str)\<close> leaves a missing value missing (pandas 3) or writes it out
    as a string (pandas 2);
  \<^item> the float of a count;
  \<^item> the check the \<open>.str\<close> accessor makes before it accepts a column.
\<close>

datatype kind = KStr | KNum | KTs | KLst | KMissing

fun kind_of :: "('n, 't) cell \<Rightarrow> kind" where
  "kind_of (Str s) = KStr"
| "kind_of (Num n) = KNum"
| "kind_of (Ts t) = KTs"
| "kind_of (Lst l) = KLst"
| "kind_of (Missing m) = KMissing"

type_synonym ('n, 't) series = "('n, 't) cell list"

record ('n, 't) pandas =
  to_datetime_coerce :: "('n, 't) cell list \<Rightarrow> string + ('n, 't) cell list"
  to_numeric_coerce :: "('n, 't) cell list \<Rightarrow> string + ('n, 't) cell list"
  str_of_num :: "'n \<Rightarrow> string"
  str_of_datetime :: "'t \<Rightarrow> string"
  repr_strs :: "string list \<Rightarrow> string"
  astype_str_keeps_na :: bool
  float_of_nat :: "nat \<Rightarrow> 'n"
  str_accessor :: "kind list \<Rightarrow> bool"

text \<open>
  What a function of this repository can raise: the two lookup errors of its own
  indexing, the accessor's refusal, and whatever exception a conversion of the library
  raises (by name).
\<close>

datatype error = IndexError | KeyError string | AttributeError | Raised string

text \<open>A conversion returns a column with one value for each row of its argument.\<close>

definition one_per_row :: "nat \<Rightarrow> ('n, 't) cell \<Rightarrow> ('n, 't) series \<Rightarrow> ('n, 't) series" where
  "one_per_row n filler r = take n r @ replicate (n - length r) filler"

text \<open>\<open>pd.to_datetime(s, errors='coerce')\<close>.\<close>

definition to_datetime :: "('n, 't) pandas \<Rightarrow> ('n, 't) series \<Rightarrow> error + ('n, 't) series" where
  "to_datetime lib s =
     (case to_datetime_coerce lib s of
        Inl exn \<Rightarrow> Inl (Raised exn)
      | Inr r \<Rightarrow> Inr (one_per_row (length s) (Missing NaT) r))"

text \<open>\<open>pd.to_numeric(s, errors='coerce')\<close>.\<close>

definition to_numeric :: "('n, 't) pandas \<Rightarrow> ('n, 't) series \<Rightarrow> error + ('n, 't) series" where
  "to_numeric lib s =
     (case to_numeric_coerce lib s of
        Inl exn \<Rightarrow> Inl (Raised exn)
      | Inr r \<Rightarrow> Inr (one_per_row (length s) (Missing NaN) r))"

text \<open>\<open>str(v)\<close>, the string \<open>astype(str)\<close> gives a value; none for a missing value
  that \<open>astype(str)\<close> leaves missing.\<close>

fun str_of :: "('n, 't) pandas \<Rightarrow> ('n, 't) cell \<Rightarrow> string option" where
  "str_of lib (Str s) = Some s"
| "str_of lib (Num n) = Some (str_of_num lib n)"
| "str_of lib (Ts t) = Some (str_of_datetime lib t)"
| "str_of lib (Lst l) = Some (''['' @ repr_strs lib l @ '']'')"
| "str_of lib (Missing m) =
     (if astype_str_keeps_na lib then None
      else Some (case m of NoneV \<Rightarrow> ''None'' | NaN \<Rightarrow> ''nan'' | NaT \<Rightarrow> ''NaT''))"

definition astype_str :: "('n, 't) pandas \<Rightarrow> ('n, 't) series \<Rightarrow> ('n, 't) series" where
  "astype_str lib s = map (\<lambda>v. case str_of lib v of Some x \<Rightarrow> Str x | None \<Rightarrow> Missing NaN) s"

text \<open>
  The methods of the \<open>.str\<close> accessor, value by value: a string is transformed, a
  missing value stays as it is, and any other value gives \<open>NaN\<close>.
\<close>

fun str_method :: "(string \<Rightarrow> ('n, 't) cell) \<Rightarrow> ('n, 't) cell \<Rightarrow> ('n, 't) cell" where
  "str_method f (Str s) = f s"
| "str_method f (Missing m) = Missing m"
| "str_method f _ = Missing NaN"

definition str_split :: "char \<Rightarrow> ('n, 't) series \<Rightarrow> ('n, 't) series" where
  "str_split d s = map (str_method (\<lambda>x. Lst (split d x))) s"

definition str_lower :: "('n, 't) series \<Rightarrow> ('n, 't) series" where
  "str_lower s = map (str_method (\<lambda>x. Str (lower x))) s"

definition str_strip :: "('n, 't) series \<Rightarrow> ('n, 't) series" where
  "str_strip s = map (str_method (\<lambda>x. Str (strip x))) s"

text \<open>\<open>.str.startswith(p)\<close> on a column of strings; false where the value is missing.\<close>

definition str_startswith :: "string \<Rightarrow> ('n, 't) series \<Rightarrow> bool list" where
  "str_startswith p s = map (\<lambda>v. case v of Str x \<Rightarrow> startswith x p | _ \<Rightarrow> False) s"

text \<open>\<open>fillna(v)\<close>.\<close>

definition fillna :: "('n, 't) cell \<Rightarrow> ('n, 't) series \<Rightarrow> ('n, 't) series" where
  "fillna v s = map (\<lambda>x. if isna x then v else x) s"

section \<open>Tables\<close>

text \<open>
  A table is the list of its columns in order, each a name and the values of its rows.
  In a well-formed table the names are distinct and the columns have one length.
\<close>

type_synonym ('n, 't) frame = "(string \<times> ('n, 't) series) list"

definition columns :: "('n, 't) frame \<Rightarrow> string list" where
  "columns df = map fst df"

definition nrows :: "('n, 't) frame \<Rightarrow> nat" where
  "nrows df = (case df of [] \<Rightarrow> 0 | (c, s) # rest \<Rightarrow> length s)"

definition wf_frame :: "('n, 't) frame \<Rightarrow> bool" where
  "wf_frame df = (distinct (columns df) \<and> list_all (\<lambda>(c, s). length s = nrows df) df)"

text \<open>\<open>df[c]\<close>, which raises \<open>KeyError\<close> for a name the table does not have.\<close>

definition getitem :: "('n, 't) frame \<Rightarrow> string \<Rightarrow> error + ('n, 't) series" where
  "getitem df c = (case map_of df c of None \<Rightarrow> Inl (KeyError c) | Some s \<Rightarrow> Inr s)"

text \<open>\<open>df[c] = s\<close>: replaces the column in its place, or appends a new last column.\<close>

definition setitem :: "('n, 't) frame \<Rightarrow> string \<Rightarrow> ('n, 't) series \<Rightarrow> ('n, 't) frame" where
  "setitem df c s = AList.update c s df"

text \<open>\<open>df.iloc[:, 0]\<close>, which raises \<open>IndexError\<close> on a table with no column.\<close>

definition iloc_col0 :: "('n, 't) frame \<Rightarrow> error + ('n, 't) series" where
  "iloc_col0 df = (case df of [] \<Rightarrow> Inl IndexError | (c, s) # rest \<Rightarrow> Inr s)"

text \<open>\<open>df[mask]\<close> for a Boolean mask: the rows whose mask is true, in order.\<close>

fun select_rows :: "bool list \<Rightarrow> 'a list \<Rightarrow> 'a list" where
  "select_rows (b # bs) (x # xs) = (if b then x # select_rows bs xs else select_rows bs xs)"
| "select_rows bs xs = []"

definition getitem_mask :: "('n, 't) frame \<Rightarrow> bool list \<Rightarrow> ('n, 't) frame" where
  "getitem_mask df keep = map (\<lambda>(c, s). (c, select_rows keep s)) df"

section \<open>The cleaning functions: the table returned for a table\<close>

text \<open>\<open>~col.astype(str).str.startswith('...')\<close>: true for the rows to keep.\<close>

definition not_placeholder :: "('n, 't) pandas \<Rightarrow> ('n, 't) series \<Rightarrow> bool list" where
  "not_placeholder lib first = map Not (str_startswith ''...'' (astype_str lib first))"

definition clean_trades :: "('n, 't) pandas \<Rightarrow> ('n, 't) frame \<Rightarrow> error + ('n, 't) frame" where
  "clean_trades lib df =
     (case iloc_col0 df of Inl e \<Rightarrow> Inl e | Inr first \<Rightarrow>
      let df_cleaned = getitem_mask df (not_placeholder lib first) in
      case getitem df_cleaned ''timestamp'' of Inl e \<Rightarrow> Inl e | Inr timestamp \<Rightarrow>
      case to_datetime lib timestamp of Inl e \<Rightarrow> Inl e | Inr timestamp \<Rightarrow>
      let df_cleaned = setitem df_cleaned ''timestamp'' timestamp in
      case getitem df_cleaned ''price'' of Inl e \<Rightarrow> Inl e | Inr price \<Rightarrow>
      case to_numeric lib price of Inl e \<Rightarrow> Inl e | Inr price \<Rightarrow>
      let df_cleaned = setitem df_cleaned ''price'' price in
      case getitem df_cleaned ''volume'' of Inl e \<Rightarrow> Inl e | Inr volume \<Rightarrow>
      case to_numeric lib volume of Inl e \<Rightarrow> Inl e | Inr volume \<Rightarrow>
      let df_cleaned = setitem df_cleaned ''volume'' volume in
      Inr df_cleaned)"

text \<open>One round of the loop over the text columns of the news table.\<close>

definition strip_column :: "('n, 't) pandas \<Rightarrow> string \<Rightarrow> ('n, 't) frame \<Rightarrow> ('n, 't) frame" where
  "strip_column lib col df_cleaned =
     (case getitem df_cleaned col of
        Inl e \<Rightarrow> df_cleaned
      | Inr s \<Rightarrow> setitem df_cleaned col (str_strip (astype_str lib s)))"

text \<open>\<open>lambda x: [symbol.strip() for symbol in x] if isinstance(x, list) else x\<close>.\<close>

fun strip_symbols :: "('n, 't) cell \<Rightarrow> ('n, 't) cell" where
  "strip_symbols (Lst x) = Lst (map strip x)"
| "strip_symbols x = x"

definition clean_news :: "('n, 't) pandas \<Rightarrow> ('n, 't) frame \<Rightarrow> error + ('n, 't) frame" where
  "clean_news lib df =
     (case iloc_col0 df of Inl e \<Rightarrow> Inl e | Inr first \<Rightarrow>
      let df_cleaned = getitem_mask df (not_placeholder lib first) in
      case getitem df_cleaned ''timestamp'' of Inl e \<Rightarrow> Inl e | Inr timestamp \<Rightarrow>
      case to_datetime lib timestamp of Inl e \<Rightarrow> Inl e | Inr timestamp \<Rightarrow>
      let df_cleaned = setitem df_cleaned ''timestamp'' timestamp;
          df_cleaned = fold (strip_column lib)
                         [''headline'', ''summary'', ''source'', ''category''] df_cleaned in
      case getitem df_cleaned ''related_symbols'' of
        Inl e \<Rightarrow> Inr df_cleaned
      | Inr related_symbols \<Rightarrow>
          if \<not> str_accessor lib (map kind_of related_symbols) then Inl AttributeError
          else Inr (setitem df_cleaned ''related_symbols_list''
                      (map strip_symbols (str_split CHR '';'' related_symbols))))"

definition clean_sentiment_labels ::
  "('n, 't) pandas \<Rightarrow> ('n, 't) frame \<Rightarrow> error + ('n, 't) frame" where
  "clean_sentiment_labels lib df =
     (case iloc_col0 df of Inl e \<Rightarrow> Inl e | Inr first \<Rightarrow>
      let df_cleaned = getitem_mask df (not_placeholder lib first) in
      case getitem df_cleaned ''timestamp'' of Inl e \<Rightarrow> Inl e | Inr timestamp \<Rightarrow>
      case to_datetime lib timestamp of Inl e \<Rightarrow> Inl e | Inr timestamp \<Rightarrow>
      let df_cleaned = setitem df_cleaned ''timestamp'' timestamp in
      case getitem df_cleaned ''confidence_score'' of Inl e \<Rightarrow> Inl e | Inr confidence_score \<Rightarrow>
      case to_numeric lib confidence_score of Inl e \<Rightarrow> Inl e | Inr confidence_score \<Rightarrow>
      let df_cleaned = setitem df_cleaned ''confidence_score'' confidence_score in
      case getitem df_cleaned ''sentiment_label'' of
        Inl e \<Rightarrow> Inr df_cleaned
      | Inr sentiment_label \<Rightarrow>
          if \<not> str_accessor lib (map kind_of sentiment_label) then Inl AttributeError
          else if \<not> str_accessor lib (map kind_of (str_lower sentiment_label))
          then Inl AttributeError
          else Inr (setitem df_cleaned ''sentiment_label''
                      (str_strip (str_lower sentiment_label))))"

section \<open>The three cleaners side by side\<close>

datatype schema = Trades | News | SentimentLabels

fun clean :: "('n, 't) pandas \<Rightarrow> schema \<Rightarrow> ('n, 't) frame \<Rightarrow> error + ('n, 't) frame" where
  "clean lib Trades = clean_trades lib"
| "clean lib News = clean_news lib"
| "clean lib SentimentLabels = clean_sentiment_labels lib"

text \<open>The columns a cleaner reads with \<open>df[c]\<close> without asking whether they exist, in
  the order in which it reads them, and the conversion it applies to each.\<close>

fun required :: "schema \<Rightarrow> string list" where
  "required Trades = [''timestamp'', ''price'', ''volume'']"
| "required News = [''timestamp'']"
| "required SentimentLabels = [''timestamp'', ''confidence_score'']"

definition coerce ::
  "('n, 't) pandas \<Rightarrow> string \<Rightarrow> ('n, 't) series \<Rightarrow> error + ('n, 't) series" where
  "coerce lib c = (if c = ''timestamp'' then to_datetime lib else to_numeric lib)"

text \<open>The columns a cleaner assigns to.\<close>

fun rewritten :: "schema \<Rightarrow> string list" where
  "rewritten Trades = [''timestamp'', ''price'', ''volume'']"
| "rewritten News =
     [''timestamp'', ''headline'', ''summary'', ''source'', ''category'',
      ''related_symbols_list'']"
| "rewritten SentimentLabels = [''timestamp'', ''confidence_score'', ''sentiment_label'']"

text \<open>A value whose string form starts with three dots.\<close>

definition is_placeholder :: "('n, 't) pandas \<Rightarrow> ('n, 't) cell \<Rightarrow> bool" where
  "is_placeholder lib v =
     (case str_of lib v of Some x \<Rightarrow> startswith x ''...'' | None \<Rightarrow> False)"

text \<open>All columns of a table have the length \<open>n\<close>.\<close>

definition all_len :: "nat \<Rightarrow> ('n, 't) frame \<Rightarrow> bool" where
  "all_len n df = list_all (\<lambda>(c, s). length s = n) df"

text \<open>The news table after the row filter, the assignment of the converted timestamps
  and the loop over the text columns.\<close>

definition news_base ::
  "('n, 't) pandas \<Rightarrow> bool list \<Rightarrow> ('n, 't) series \<Rightarrow> ('n, 't) frame \<Rightarrow> ('n, 't) frame" where
  "news_base lib k timestamp df =
     fold (strip_column lib) [''headline'', ''summary'', ''source'', ''category'']
       (setitem (getitem_mask df k) ''timestamp'' timestamp)"


text \<open>
  The value derived from one cell of the symbol column, as the cleaner computes it: a
  string is split at the semicolons and each piece trimmed, a missing value stays what it
  is, and any other value gives \<open>NaN\<close>.
\<close>

fun parsed_symbols :: "('n, 't) cell \<Rightarrow> ('n, 't) cell" where
  "parsed_symbols (Str s) = Lst (map strip (split CHR '';'' s))"
| "parsed_symbols (Missing m) = Missing m"
| "parsed_symbols v = Missing NaN"

section \<open>Two small instances of the library, for evaluating on concrete tables\<close>

text \<open>
  Both instances read unsigned integer literals as numbers and three ISO layouts as
  timestamps (a timestamp is kept as its text; numbers are not converted to timestamps).
  As pandas does, \<open>to_datetime\<close> takes the layout of the first value that is not missing
  and reads the column in that layout, a value in another layout becoming \<open>NaT\<close>; when
  the first value has no layout, every value is read on its own. The \<open>.str\<close> accessor
  turns a column down when its values that are not missing are all numbers or all
  timestamps, or when it has rows and all of them are missing.

  The first instance behaves like pandas 2: \<open>astype(str)\<close> writes a missing value out
  (\<open>nan\<close>, \<open>None\<close>, \<open>NaT\<close>), and a column read value by value may mix naive and UTC
  timestamps. The second behaves like pandas 3: \<open>astype(str)\<close> leaves a missing value
  missing, and \<open>to_datetime\<close> raises \<open>ValueError\<close> for such a mix although
  \<open>errors='coerce'\<close> was asked for.
\<close>

definition is_digit :: "char \<Rightarrow> bool" where
  "is_digit c = (48 \<le> (of_char c :: nat) \<and> (of_char c :: nat) \<le> 57)"

fun show_nat_fuel :: "nat \<Rightarrow> nat \<Rightarrow> string" where
  "show_nat_fuel 0 n = [char_of (48 + n mod 10)]"
| "show_nat_fuel (Suc f) n =
     (if n < 10 then [char_of (48 + n)]
      else show_nat_fuel f (n div 10) @ [char_of (48 + n mod 10)])"

definition show_nat :: "nat \<Rightarrow> string" where
  "show_nat n = show_nat_fuel n n"

definition read_nat :: "string \<Rightarrow> nat option" where
  "read_nat s =
     (if s \<noteq> [] \<and> list_all is_digit s
      then Some (foldl (\<lambda>a c. 10 * a + ((of_char c :: nat) - 48)) 0 s)
      else None)"

fun matches_layout :: "string \<Rightarrow> string \<Rightarrow> bool" where
  "matches_layout [] [] = True"
| "matches_layout (p # ps) (c # cs) =
     ((if p = CHR ''d'' then is_digit c else c = p) \<and> matches_layout ps cs)"
| "matches_layout ps cs = False"

text \<open>The two digits of a string from position \<open>i\<close> on, as a number.\<close>

definition field :: "nat \<Rightarrow> string \<Rightarrow> nat" where
  "field i s = (case read_nat (take 2 (drop i s)) of Some n \<Rightarrow> n | None \<Rightarrow> 0)"

definition utc_layout :: string where
  "utc_layout = ''dddd-dd-ddTdd:dd:ddZ''"

definition layouts :: "string list" where
  "layouts = [''dddd-dd-dd'', utc_layout, ''dddd-dd-dd dd:dd:dd'']"

definition fits :: "string \<Rightarrow> string \<Rightarrow> bool" where
  "fits layout s =
     (matches_layout layout s
      \<and> 1 \<le> field 5 s \<and> field 5 s \<le> 12 \<and> 1 \<le> field 8 s \<and> field 8 s \<le> 31
      \<and> (length layout = 10 \<or> (field 11 s \<le> 23 \<and> field 14 s \<le> 59 \<and> field 17 s \<le> 59)))"

definition layout_of :: "string \<Rightarrow> string option" where
  "layout_of s = find (\<lambda>layout. fits layout s) layouts"

text \<open>One value read in a given layout, and one value read on its own.\<close>

fun read_in :: "string \<Rightarrow> (nat, string) cell \<Rightarrow> (nat, string) cell" where
  "read_in layout (Str y) = (if fits layout y then Ts y else Missing NaT)"
| "read_in layout (Ts t) = Ts t"
| "read_in layout v = Missing NaT"

fun read_alone :: "(nat, string) cell \<Rightarrow> (nat, string) cell" where
  "read_alone (Str y) = (case layout_of y of Some layout \<Rightarrow> Ts y | None \<Rightarrow> Missing NaT)"
| "read_alone (Ts t) = Ts t"
| "read_alone v = Missing NaT"

fun is_utc :: "(nat, string) cell \<Rightarrow> bool" where
  "is_utc (Str y) = (layout_of y = Some utc_layout)"
| "is_utc v = False"

fun is_naive :: "(nat, string) cell \<Rightarrow> bool" where
  "is_naive (Str y) = (case layout_of y of Some layout \<Rightarrow> layout \<noteq> utc_layout | None \<Rightarrow> False)"
| "is_naive v = False"

definition sample_to_datetime ::
  "bool \<Rightarrow> (nat, string) cell list \<Rightarrow> string + (nat, string) cell list" where
  "sample_to_datetime raise_on_mixed s =
     (let alone = (if raise_on_mixed \<and> list_ex is_utc s \<and> list_ex is_naive s
                   then Inl ''ValueError'' else Inr (map read_alone s))
      in case find (\<lambda>v. \<not> isna v) s of
           Some (Str x) \<Rightarrow>
             (case layout_of x of
                Some layout \<Rightarrow> Inr (map (read_in layout) s)
              | None \<Rightarrow> alone)
         | other \<Rightarrow> alone)"

fun read_number :: "(nat, string) cell \<Rightarrow> (nat, string) cell" where
  "read_number (Str y) = (case read_nat y of Some n \<Rightarrow> Num n | None \<Rightarrow> Missing NaN)"
| "read_number (Num n) = Num n"
| "read_number v = Missing NaN"

fun join_repr :: "string list \<Rightarrow> string" where
  "join_repr [] = []"
| "join_repr [x] = [CHR 0x27] @ x @ [CHR 0x27]"
| "join_repr (x # xs) = [CHR 0x27] @ x @ [CHR 0x27] @ '', '' @ join_repr xs"

definition accepts_kinds :: "kind list \<Rightarrow> bool" where
  "accepts_kinds ks =
     (let present = filter (\<lambda>k. k \<noteq> KMissing) ks
      in if present = [] then ks = []
         else \<not> (list_all (\<lambda>k. k = KNum) present \<or> list_all (\<lambda>k. k = KTs) present))"

definition sample_pandas :: "(nat, string) pandas" where
  "sample_pandas =
     \<lparr> to_datetime_coerce = sample_to_datetime False,
       to_numeric_coerce = (\<lambda>s. Inr (map read_number s)),
       str_of_num = show_nat,
       str_of_datetime = (\<lambda>t. t),
       repr_strs = join_repr,
       astype_str_keeps_na = False,
       float_of_nat = (\<lambda>n. n),
       str_accessor = accepts_kinds \<rparr>"

definition sample_pandas3 :: "(nat, string) pandas" where
  "sample_pandas3 =
     \<lparr> to_datetime_coerce = sample_to_datetime True,
       to_numeric_coerce = (\<lambda>s. Inr (map read_number s)),
       str_of_num = show_nat,
       str_of_datetime = (\<lambda>t. t),
       repr_strs = join_repr,
       astype_str_keeps_na = True,
       float_of_nat = (\<lambda>n. n),
       str_accessor = accepts_kinds \<rparr>"

text \<open>A trades table in the layout of the repository's own example: the second row is
  a placeholder, the last row has a bad date and a bad price.\<close>

definition sample_trades :: "(nat, string) frame" where
  "sample_trades =
     [(''timestamp'', [Str ''2023-10-26T10:00:01Z'', Str ''...'', Str ''2023-10-26T10:00:02Z'',
                       Str ''invalid-date'']),
      (''symbol'', [Str ''BTC-USD'', Str ''comment'', Str ''ETH-USD'', Str ''SOL-USD'']),
      (''price'', [Str ''34500'', Str ''ignore'', Str ''1850'', Str ''abc'']),
      (''volume'', [Str ''5'', Str ''this'', Str ''21'', Str ''150''])]"

definition sample_trades_cleaned :: "(nat, string) frame" where
  "sample_trades_cleaned =
     [(''timestamp'', [Ts ''2023-10-26T10:00:01Z'', Ts ''2023-10-26T10:00:02Z'', Missing NaT]),
      (''symbol'', [Str ''BTC-USD'', Str ''ETH-USD'', Str ''SOL-USD'']),
      (''price'', [Num 34500, Num 1850, Missing NaN]),
      (''volume'', [Num 5, Num 21, Num 150])]"

definition sample_labels :: "(nat, string) frame" where
  "sample_labels =
     [(''news_id'', [Str ''NEWS-001'', Str ''...'', Str ''NEWS-003'']),
      (''timestamp'', [Str ''2023-10-26'', Str ''placeholder'', Str ''not a date'']),
      (''sentiment_label'', [Str '' Positive '', Str ''row'', Str ''NEGATIVE'']),
      (''confidence_score'', [Str ''high'', Str ''ignore'', Str ''7''])]"

definition sample_labels_cleaned :: "(nat, string) frame" where
  "sample_labels_cleaned =
     [(''news_id'', [Str ''NEWS-001'', Str ''NEWS-003'']),
      (''timestamp'', [Ts ''2023-10-26'', Missing NaT]),
      (''sentiment_label'', [Str ''positive'', Str ''negative'']),
      (''confidence_score'', [Missing NaN, Num 7])]"

definition sample_news :: "(nat, string) frame" where
  "sample_news =
     [(''id'', [Str ''NEWS-001'', Str ''NEWS-002'', Str ''...'']),
      (''timestamp'', [Str ''2023-10-26T09:00:00Z'', Str ''2023-10-26T09:30:00Z'',
                       Str ''placeholder'']),
      (''headline'', [Str '' Headline 1 '', Str ''Headline 2 '', Str ''comment'']),
      (''related_symbols'', [Str ''BTC-USD;ETH-USD'', Num 5, Str ''row''])]"

definition sample_news_cleaned :: "(nat, string) frame" where
  "sample_news_cleaned =
     [(''id'', [Str ''NEWS-001'', Str ''NEWS-002'']),
      (''timestamp'', [Ts ''2023-10-26T09:00:00Z'', Ts ''2023-10-26T09:30:00Z'']),
      (''headline'', [Str ''Headline 1'', Str ''Headline 2'']),
      (''related_symbols'', [Str ''BTC-USD;ETH-USD'', Num 5]),
      (''related_symbols_list'', [Lst [''BTC-USD'', ''ETH-USD''], Missing NaN])]"

text \<open>A trades table without a timestamp column, and one without a price column.\<close>

definition sample_trades_no_timestamp :: "(nat, string) frame" where
  "sample_trades_no_timestamp =
     [(''symbol'', [Str ''BTC-USD'']), (''price'', [Str ''34500'']), (''volume'', [Str ''5''])]"

definition sample_trades_no_price :: "(nat, string) frame" where
  "sample_trades_no_price =
     [(''timestamp'', [Str ''2023-10-26'']), (''symbol'', [Str ''BTC-USD'']),
      (''volume'', [Str ''5''])]"





section \<open>Tables as objects: what is copied and what is updated in place\<close>

text \<open>
  The functions above give the table a cleaner returns as a function of the table it is
  given. Whether the caller's table is still the same afterwards is a matter of object
  identity, so the functions are written once more over a store: a heap of table objects
  addressed by their position, and the lines printed so far. \<open>df.copy()\<close> and
  \<open>df[mask]\<close> allocate a new object; \<open>df[c] = s\<close> updates the object \<open>df\<close> refers to.
\<close>

type_synonym ref = nat

datatype message =
    CleaningData schema
  | RemovedRows int
  | FoundNulls string nat
  | CleanedShape schema nat nat
  | ApplyingLabeling string
  | ColumnNotFound string
  | LabelingComplete
  | ValueCountsTitle
  | ValueCounts "string list"

record ('n, 't) world =
  heap :: "('n, 't) frame list"
  stdout :: "message list"

definition print :: "message \<Rightarrow> ('n, 't) world \<Rightarrow> ('n, 't) world" where
  "print m w = w\<lparr>stdout := stdout w @ [m]\<rparr>"


definition setitem_obj ::
  "ref \<Rightarrow> string \<Rightarrow> ('n, 't) series \<Rightarrow> ('n, 't) world \<Rightarrow> ('n, 't) world" where
  "setitem_obj r c s w = w\<lparr>heap := (heap w)[r := setitem (heap w ! r) c s]\<rparr>"







section \<open>Applying the classifier to a table\<close>

text \<open>
  \<open>apply_sentiment_to_news\<close> takes no copy: it assigns to columns of the table it was
  given and returns that table. \<open>text_column not in df.columns\<close> is the case in which
  the lookup of the column fails. The column is read a second time for \<open>apply\<close>, after
  it has been assigned to, so that lookup finds it.
\<close>

definition apply_sentiment_to_news ::
  "('n, 't) pandas \<Rightarrow> ref \<Rightarrow> string \<Rightarrow> ('n, 't) world \<Rightarrow> ref \<times> ('n, 't) world" where
  "apply_sentiment_to_news lib df text_column w0 =
     (let w = print (ApplyingLabeling text_column) w0
      in case getitem (heap w ! df) text_column of
           Inl e \<Rightarrow> (df, print (ColumnNotFound text_column) w)
         | Inr text \<Rightarrow>
      let w = setitem_obj df text_column (fillna (Str '''') (astype_str lib text)) w
      in case getitem (heap w ! df) text_column of
           Inl e \<Rightarrow> (df, w)
         | Inr text \<Rightarrow>
      let sentiment_results = map label_sentiment_keywords text;
          w = setitem_obj df ''auto_sentiment_label''
                (map (\<lambda>res. Str (fst res)) sentiment_results) w;
          w = setitem_obj df ''auto_sentiment_score''
                (map (\<lambda>res. Num (float_of_nat lib (snd res))) sentiment_results) w;
          w = print LabelingComplete w;
          w = print ValueCountsTitle w;
          w = print (ValueCounts (map fst sentiment_results)) w
      in (df, w))"


text \<open>The table the labeling leaves behind, for a table whose text column holds
  \<open>text\<close>: the text column in string form with missing values filled by the empty
  string, and the label and the score of each of these strings.\<close>

definition labeled ::
  "('n, 't) pandas \<Rightarrow> ('n, 't) frame \<Rightarrow> string \<Rightarrow> ('n, 't) series \<Rightarrow> ('n, 't) frame" where
  "labeled lib df text_column text =
     (let filled = fillna (Str '''') (astype_str lib text)
      in setitem
           (setitem (setitem df text_column filled)
              ''auto_sentiment_label'' (map (\<lambda>v. Str (fst (label_sentiment_keywords v))) filled))
           ''auto_sentiment_score''
           (map (\<lambda>v. Num (float_of_nat lib (snd (label_sentiment_keywords v)))) filled))"

text \<open>A news table with a headline that is missing, in a store that holds nothing else.\<close>

definition sample_unlabeled :: "(nat, string) frame" where
  "sample_unlabeled =
     [(''id'', [Str ''NEWS-001'', Str ''NEWS-002'']),
      (''headline'', [Str ''Bitcoin Surges'', Missing NaN])]"

definition sample_world :: "(nat, string) world" where
  "sample_world = \<lparr> heap = [sample_unlabeled], stdout = [] \<rparr>"

section \<open>Properties of the string operations\<close>

lemma startswith_prefix: "startswith s p \<longleftrightarrow> prefix p s"
  unfolding startswith_def prefix_def
  by (metis append_eq_conv_conj append_take_drop_id)

lemma contains_sublist: "contains s k \<longleftrightarrow> sublist k s"
  by (induction s) (auto simp: startswith_prefix sublist_Cons_right)

section \<open>Properties of the keyword classifier\<close>

lemma keyword_count_length:
  "keyword_count ks t = length (filter (\<lambda>k. contains t k) ks)"
  unfolding keyword_count_def by (induction ks) auto

lemma keyword_count_card:
  "distinct ks \<Longrightarrow> keyword_count ks (lower text) = markers_found ks text"
proof -
  assume d: "distinct ks"
  have "set (filter (\<lambda>k. contains (lower text) k) ks)
        = {m \<in> set ks. \<exists>pre suf. lower text = pre @ m @ suf}"
    by (auto simp: contains_sublist sublist_def)
  moreover have "distinct (filter (\<lambda>k. contains (lower text) k) ks)"
    using d by simp
  ultimately show ?thesis
    unfolding keyword_count_length markers_found_def
    by (metis distinct_card)
qed

lemma distinct_POSITIVE_KEYWORDS: "distinct POSITIVE_KEYWORDS"
  unfolding POSITIVE_KEYWORDS_def by simp

lemma distinct_NEGATIVE_KEYWORDS: "distinct NEGATIVE_KEYWORDS"
  unfolding NEGATIVE_KEYWORDS_def by simp

text \<open>
  Claim C3. For a string, \<open>label_sentiment_keywords\<close> counts every positive and every
  negative marker at most once (one for each marker that occurs in the lower-cased text)
  and returns Positive with the positive count when that count is larger, Negative with
  the negative count when that one is larger, and Neutral with confidence 0 on a tie;
  for every value that is not a string it returns Neutral with confidence 0.
\<close>

theorem label_sentiment_keywords_rule:
  "label_sentiment_keywords c =
     (case c of
        Str text \<Rightarrow>
          (let pos_count = markers_found POSITIVE_KEYWORDS text;
               neg_count = markers_found NEGATIVE_KEYWORDS text
           in if pos_count > neg_count then (''Positive'', pos_count)
              else if neg_count > pos_count then (''Negative'', neg_count)
              else (''Neutral'', 0))
      | _ \<Rightarrow> (''Neutral'', 0))"
  by (cases c)
     (simp_all add: keyword_count_card distinct_POSITIVE_KEYWORDS distinct_NEGATIVE_KEYWORDS)

text \<open>
  Claim C4. The classifier is a function of the text alone, and on the three texts of
  the specification it returns Positive with 2, Negative with 2 and, for the empty
  string, Neutral with 0.
\<close>

theorem label_sentiment_keywords_examples:
  "label_sentiment_keywords
     (Str ''Bitcoin Surges Past $34,000 Amid Spot ETF Optimism'' :: (int, int) cell)
     = (''Positive'', 2)
   \<and> label_sentiment_keywords
     (Str ''Regulatory Uncertainty Weighs on Cardano Development'' :: (int, int) cell)
     = (''Negative'', 2)
   \<and> label_sentiment_keywords (Str '''' :: (int, int) cell) = (''Neutral'', 0)"
  by code_simp

section \<open>Properties of the table operations\<close>

lemma map_of_setitem: "map_of (setitem df c s) = (map_of df)(c \<mapsto> s)"
  unfolding setitem_def by (rule update_conv')

lemma map_of_getitem_mask:
  "map_of (getitem_mask df keep) c = map_option (select_rows keep) (map_of df c)"
  unfolding getitem_mask_def by (induction df) auto

lemma map_of_strip_column:
  "map_of (strip_column lib col df) c =
     (if c = col then map_option (\<lambda>s. str_strip (astype_str lib s)) (map_of df c)
      else map_of df c)"
  unfolding strip_column_def getitem_def
  by (auto simp: map_of_setitem split: option.splits)

lemma map_of_None_columns: "map_of df c = None \<longleftrightarrow> c \<notin> set (columns df)"
  unfolding columns_def by (simp add: map_of_eq_None_iff)


lemma setitem_nonempty: "setitem df c s \<noteq> []"
  unfolding setitem_def by (cases df) auto

lemma wf_all_len: "wf_frame df \<Longrightarrow> all_len (nrows df) df"
  unfolding wf_frame_def all_len_def by simp

lemma all_len_nrows: "all_len n df \<Longrightarrow> df \<noteq> [] \<Longrightarrow> nrows df = n"
  unfolding all_len_def nrows_def by (cases df) auto

lemma all_len_lookup: "all_len n df \<Longrightarrow> map_of df c = Some s \<Longrightarrow> length s = n"
  unfolding all_len_def by (induction df) (auto split: if_splits)

lemma all_len_setitem: "all_len n df \<Longrightarrow> length s = n \<Longrightarrow> all_len n (setitem df c s)"
  unfolding all_len_def setitem_def by (induction df) auto


lemma iloc_col0_Inr: "iloc_col0 df = Inr first \<Longrightarrow> df \<noteq> [] \<and> nrows df = length first"
  unfolding iloc_col0_def nrows_def by (cases df) auto

lemma nonempty_iloc: "df \<noteq> [] \<Longrightarrow> \<exists>first. iloc_col0 df = Inr first"
  unfolding iloc_col0_def by (cases df) auto

lemma length_select_rows:
  "length keep = length xs \<Longrightarrow> length (select_rows keep xs) = length (filter id keep)"
  by (induction keep xs rule: select_rows.induct) auto

lemma select_rows_nths:
  "length keep = length xs \<Longrightarrow> select_rows keep xs = nths xs {i. i < length keep \<and> keep ! i}"
proof (induction keep xs rule: select_rows.induct)
  case (1 b bs x xs)
  have "{j. Suc j < Suc (length bs) \<and> (b # bs) ! Suc j} = {j. j < length bs \<and> bs ! j}"
    by auto
  with 1 show ?case by (auto simp: nths_Cons)
qed auto


lemma all_len_getitem_mask:
  "all_len (length keep) df \<Longrightarrow> all_len (length (filter id keep)) (getitem_mask df keep)"
  unfolding all_len_def getitem_mask_def
  by (induction df) (auto simp: length_select_rows)


lemma length_astype_str [simp]: "length (astype_str lib s) = length s"
  by (simp add: astype_str_def)

lemma length_str_strip [simp]: "length (str_strip s) = length s"
  by (simp add: str_strip_def)

lemma length_str_lower [simp]: "length (str_lower s) = length s"
  by (simp add: str_lower_def)

lemma length_str_split [simp]: "length (str_split d s) = length s"
  by (simp add: str_split_def)

lemma all_len_strip_column: "all_len n df \<Longrightarrow> all_len n (strip_column lib col df)"
  unfolding strip_column_def getitem_def
  by (auto split: option.splits intro!: all_len_setitem dest: all_len_lookup)

lemma strip_column_nonempty: "df \<noteq> [] \<Longrightarrow> strip_column lib col df \<noteq> []"
  unfolding strip_column_def by (auto split: sum.splits simp: setitem_nonempty)

lemma length_one_per_row [simp]: "length (one_per_row n filler r) = n"
  by (simp add: one_per_row_def)

lemma one_per_row_same: "length r = n \<Longrightarrow> one_per_row n filler r = r"
  by (simp add: one_per_row_def)

lemma to_datetime_length: "to_datetime lib s = Inr r \<Longrightarrow> length r = length s"
  unfolding to_datetime_def by (auto split: sum.splits)

lemma to_numeric_length: "to_numeric lib s = Inr r \<Longrightarrow> length r = length s"
  unfolding to_numeric_def by (auto split: sum.splits)

lemma coerce_length: "coerce lib c s = Inr r \<Longrightarrow> length r = length s"
  unfolding coerce_def by (auto split: if_splits dest: to_datetime_length to_numeric_length)

section \<open>The placeholder mask\<close>

lemma not_placeholder_map:
  "not_placeholder lib first = map (\<lambda>v. \<not> is_placeholder lib v) first"
  unfolding not_placeholder_def str_startswith_def astype_str_def is_placeholder_def
  by (auto split: option.splits)

lemma length_not_placeholder [simp]: "length (not_placeholder lib first) = length first"
  by (simp add: not_placeholder_map)

lemma not_placeholder_nth:
  "i < length first \<Longrightarrow> not_placeholder lib first ! i = (\<not> is_placeholder lib (first ! i))"
  by (simp add: not_placeholder_map)

lemma kept_count:
  "length (filter id (not_placeholder lib first))
     = length first - length (filter (is_placeholder lib) first)"
  unfolding not_placeholder_map
  by (induction first) (auto simp: Suc_diff_le)


section \<open>The cleaners, step by step on the columns of the input\<close>

lemma clean_empty:
  "clean_trades lib [] = Inl IndexError" "clean_news lib [] = Inl IndexError"
  "clean_sentiment_labels lib [] = Inl IndexError"
  unfolding clean_trades_def clean_news_def clean_sentiment_labels_def iloc_col0_def
  by simp_all

lemma clean_trades_cases:
  assumes "iloc_col0 df = Inr first"
  shows "clean_trades lib df =
     (case map_of df ''timestamp'' of
        None \<Rightarrow> Inl (KeyError ''timestamp'')
      | Some ts \<Rightarrow>
     (case to_datetime lib (select_rows (not_placeholder lib first) ts) of
        Inl e \<Rightarrow> Inl e
      | Inr T \<Rightarrow>
     (case map_of df ''price'' of
        None \<Rightarrow> Inl (KeyError ''price'')
      | Some p \<Rightarrow>
     (case to_numeric lib (select_rows (not_placeholder lib first) p) of
        Inl e \<Rightarrow> Inl e
      | Inr P \<Rightarrow>
     (case map_of df ''volume'' of
        None \<Rightarrow> Inl (KeyError ''volume'')
      | Some v \<Rightarrow>
     (case to_numeric lib (select_rows (not_placeholder lib first) v) of
        Inl e \<Rightarrow> Inl e
      | Inr V \<Rightarrow>
         Inr (setitem (setitem (setitem (getitem_mask df (not_placeholder lib first))
                ''timestamp'' T) ''price'' P) ''volume'' V)))))))"
  using assms unfolding clean_trades_def Let_def getitem_def
  by (simp add: map_of_setitem map_of_getitem_mask split: option.splits sum.splits)

lemma clean_news_cases:
  assumes "iloc_col0 df = Inr first"
  shows "clean_news lib df =
     (case map_of df ''timestamp'' of
        None \<Rightarrow> Inl (KeyError ''timestamp'')
      | Some ts \<Rightarrow>
     (case to_datetime lib (select_rows (not_placeholder lib first) ts) of
        Inl e \<Rightarrow> Inl e
      | Inr T \<Rightarrow>
         (case map_of df ''related_symbols'' of
            None \<Rightarrow> Inr (news_base lib (not_placeholder lib first) T df)
          | Some rs \<Rightarrow>
              if \<not> str_accessor lib (map kind_of (select_rows (not_placeholder lib first) rs))
              then Inl AttributeError
              else Inr (setitem (news_base lib (not_placeholder lib first) T df)
                     ''related_symbols_list''
                     (map strip_symbols
                        (str_split CHR '';'' (select_rows (not_placeholder lib first) rs)))))))"
  using assms unfolding clean_news_def Let_def news_base_def getitem_def
  by (simp add: map_of_strip_column map_of_setitem map_of_getitem_mask
           split: option.splits sum.splits)

lemma clean_sentiment_labels_cases:
  assumes "iloc_col0 df = Inr first"
  shows "clean_sentiment_labels lib df =
     (case map_of df ''timestamp'' of
        None \<Rightarrow> Inl (KeyError ''timestamp'')
      | Some ts \<Rightarrow>
     (case to_datetime lib (select_rows (not_placeholder lib first) ts) of
        Inl e \<Rightarrow> Inl e
      | Inr T \<Rightarrow>
     (case map_of df ''confidence_score'' of
        None \<Rightarrow> Inl (KeyError ''confidence_score'')
      | Some cs \<Rightarrow>
     (case to_numeric lib (select_rows (not_placeholder lib first) cs) of
        Inl e \<Rightarrow> Inl e
      | Inr P \<Rightarrow>
     (let d = setitem (setitem (getitem_mask df (not_placeholder lib first))
                ''timestamp'' T) ''confidence_score'' P
      in case map_of df ''sentiment_label'' of
        None \<Rightarrow> Inr d
      | Some sl \<Rightarrow>
          if \<not> str_accessor lib (map kind_of (select_rows (not_placeholder lib first) sl))
             \<or> \<not> str_accessor lib
                   (map kind_of (str_lower (select_rows (not_placeholder lib first) sl)))
          then Inl AttributeError
          else Inr (setitem d ''sentiment_label''
                 (str_strip (str_lower (select_rows (not_placeholder lib first) sl)))))))))"
  using assms unfolding clean_sentiment_labels_def Let_def getitem_def
  by (simp add: map_of_setitem map_of_getitem_mask split: option.splits sum.splits)

lemma clean_trades_InrE:
  assumes "clean_trades lib df = Inr out" and "iloc_col0 df = Inr first"
  obtains ts T p P v V where
    "map_of df ''timestamp'' = Some ts"
    "to_datetime lib (select_rows (not_placeholder lib first) ts) = Inr T"
    "map_of df ''price'' = Some p"
    "to_numeric lib (select_rows (not_placeholder lib first) p) = Inr P"
    "map_of df ''volume'' = Some v"
    "to_numeric lib (select_rows (not_placeholder lib first) v) = Inr V"
    "out = setitem (setitem (setitem (getitem_mask df (not_placeholder lib first))
                ''timestamp'' T) ''price'' P) ''volume'' V"
  using assms(1) unfolding clean_trades_cases[OF assms(2)]
  by (auto split: option.splits sum.splits)

lemma clean_news_InrE:
  assumes "clean_news lib df = Inr out" and "iloc_col0 df = Inr first"
  obtains ts T where
    "map_of df ''timestamp'' = Some ts"
    "to_datetime lib (select_rows (not_placeholder lib first) ts) = Inr T"
    "out = (case map_of df ''related_symbols'' of
              None \<Rightarrow> news_base lib (not_placeholder lib first) T df
            | Some rs \<Rightarrow> setitem (news_base lib (not_placeholder lib first) T df)
                     ''related_symbols_list''
                     (map strip_symbols
                        (str_split CHR '';'' (select_rows (not_placeholder lib first) rs))))"
    "\<And>rs. map_of df ''related_symbols'' = Some rs \<Longrightarrow>
       str_accessor lib (map kind_of (select_rows (not_placeholder lib first) rs))"
  using assms(1) unfolding clean_news_cases[OF assms(2)]
  by (auto split: option.splits sum.splits if_splits)

lemma clean_sentiment_labels_InrE:
  assumes "clean_sentiment_labels lib df = Inr out" and "iloc_col0 df = Inr first"
  obtains ts T cs P where
    "map_of df ''timestamp'' = Some ts"
    "to_datetime lib (select_rows (not_placeholder lib first) ts) = Inr T"
    "map_of df ''confidence_score'' = Some cs"
    "to_numeric lib (select_rows (not_placeholder lib first) cs) = Inr P"
    "out = (case map_of df ''sentiment_label'' of
              None \<Rightarrow> setitem (setitem (getitem_mask df (not_placeholder lib first))
                         ''timestamp'' T) ''confidence_score'' P
            | Some sl \<Rightarrow> setitem (setitem (setitem (getitem_mask df (not_placeholder lib first))
                         ''timestamp'' T) ''confidence_score'' P) ''sentiment_label''
                     (str_strip (str_lower (select_rows (not_placeholder lib first) sl))))"
    "\<And>sl. map_of df ''sentiment_label'' = Some sl \<Longrightarrow>
       str_accessor lib (map kind_of (select_rows (not_placeholder lib first) sl))
       \<and> str_accessor lib (map kind_of (str_lower (select_rows (not_placeholder lib first) sl)))"
  using assms(1) unfolding clean_sentiment_labels_cases[OF assms(2)] Let_def
  by (auto split: option.splits sum.splits if_splits)

lemma news_base_map_of:
  "map_of (news_base lib k T df) c =
     (if c = ''headline'' \<or> c = ''summary'' \<or> c = ''source'' \<or> c = ''category''
      then map_option (\<lambda>s. str_strip (astype_str lib (select_rows k s))) (map_of df c)
      else if c = ''timestamp'' then Some T
      else map_option (select_rows k) (map_of df c))"
  unfolding news_base_def
  by (simp add: map_of_strip_column map_of_setitem map_of_getitem_mask option.map_comp comp_def)

lemma news_base_shape:
  assumes "all_len (length k) df" and "length T = length (filter id k)"
  shows "news_base lib k T df \<noteq> [] \<and> all_len (length (filter id k)) (news_base lib k T df)"
proof -
  have "all_len (length (filter id k)) (setitem (getitem_mask df k) ''timestamp'' T)"
    using all_len_getitem_mask[OF assms(1)] assms(2) by (simp add: all_len_setitem)
  then show ?thesis
    unfolding news_base_def
    by (simp add: all_len_strip_column strip_column_nonempty setitem_nonempty)
qed

lemma trades_out_map_of:
  "map_of (setitem (setitem (setitem (getitem_mask df k) ''timestamp'' T) ''price'' P)
             ''volume'' V) c
   = (if c = ''volume'' then Some V else if c = ''price'' then Some P
      else if c = ''timestamp'' then Some T else map_option (select_rows k) (map_of df c))"
  by (simp add: map_of_setitem map_of_getitem_mask)

lemma labels_out_map_of:
  "map_of (setitem (setitem (getitem_mask df k) ''timestamp'' T) ''confidence_score'' P) c
   = (if c = ''confidence_score'' then Some P
      else if c = ''timestamp'' then Some T else map_option (select_rows k) (map_of df c))"
  by (simp add: map_of_setitem map_of_getitem_mask)

lemma clean_untouched:
  assumes "clean lib sch df = Inr out" and "iloc_col0 df = Inr first"
    and "map_of df c = Some s" and "c \<notin> set (rewritten sch)"
  shows "map_of out c = Some (select_rows (not_placeholder lib first) s)"
proof (cases sch)
  case Trades
  with assms(1) have "clean_trades lib df = Inr out" by simp
  then show ?thesis
    using assms(3,4) Trades
    by (elim clean_trades_InrE[OF _ assms(2)]) (simp add: trades_out_map_of)
next
  case News
  with assms(1) have "clean_news lib df = Inr out" by simp
  then show ?thesis
    using assms(3,4) News
    by (elim clean_news_InrE[OF _ assms(2)])
       (simp add: news_base_map_of map_of_setitem map_of_getitem_mask split: option.splits)
next
  case SentimentLabels
  with assms(1) have "clean_sentiment_labels lib df = Inr out" by simp
  then show ?thesis
    using assms(3,4) SentimentLabels
    by (elim clean_sentiment_labels_InrE[OF _ assms(2)])
       (simp add: labels_out_map_of map_of_setitem map_of_getitem_mask split: option.splits)
qed


lemma clean_keeps_columns:
  assumes "clean lib sch df = Inr out" and "iloc_col0 df = Inr first"
    and "map_of df c = Some s"
  shows "\<exists>s'. map_of out c = Some s'"
proof (cases sch)
  case Trades
  with assms(1) have "clean_trades lib df = Inr out" by simp
  then show ?thesis
    using assms(3)
    by (elim clean_trades_InrE[OF _ assms(2)]) (simp add: trades_out_map_of)
next
  case News
  with assms(1) have "clean_news lib df = Inr out" by simp
  then show ?thesis
    using assms(3)
    by (elim clean_news_InrE[OF _ assms(2)])
       (auto simp: news_base_map_of map_of_setitem map_of_getitem_mask split: option.splits)
next
  case SentimentLabels
  with assms(1) have "clean_sentiment_labels lib df = Inr out" by simp
  then show ?thesis
    using assms(3)
    by (elim clean_sentiment_labels_InrE[OF _ assms(2)])
       (simp add: labels_out_map_of map_of_setitem map_of_getitem_mask split: option.splits)
qed

lemma clean_shape:
  assumes "clean lib sch df = Inr out" and "iloc_col0 df = Inr first"
    and "all_len (length first) df"
  shows "out \<noteq> [] \<and> all_len (length (filter id (not_placeholder lib first))) out"
proof -
  let ?k = "not_placeholder lib first"
  let ?n = "length (filter id ?k)"
  have a: "all_len (length ?k) df" using assms(3) by simp
  have a0: "all_len ?n (getitem_mask df ?k)" using all_len_getitem_mask[OF a] .
  have len: "\<And>c x. map_of df c = Some x \<Longrightarrow> length (select_rows ?k x) = ?n"
    using all_len_lookup[OF a] by (simp add: length_select_rows)
  show ?thesis
  proof (cases sch)
    case Trades
    with assms(1) have "clean_trades lib df = Inr out" by simp
    then show ?thesis
    proof (elim clean_trades_InrE[OF _ assms(2)])
      fix ts T p P v V
      assume h: "map_of df ''timestamp'' = Some ts" "to_datetime lib (select_rows ?k ts) = Inr T"
        "map_of df ''price'' = Some p" "to_numeric lib (select_rows ?k p) = Inr P"
        "map_of df ''volume'' = Some v" "to_numeric lib (select_rows ?k v) = Inr V"
        "out = setitem (setitem (setitem (getitem_mask df ?k) ''timestamp'' T) ''price'' P)
                 ''volume'' V"
      have "length T = ?n" "length P = ?n" "length V = ?n"
        using to_datetime_length[OF h(2)] to_numeric_length[OF h(4)] to_numeric_length[OF h(6)]
          len[OF h(1)] len[OF h(3)] len[OF h(5)] by simp_all
      then show ?thesis
        unfolding h(7) using a0 by (simp add: setitem_nonempty all_len_setitem)
    qed
  next
    case News
    with assms(1) have "clean_news lib df = Inr out" by simp
    then show ?thesis
    proof (elim clean_news_InrE[OF _ assms(2)])
      fix ts T
      assume h: "map_of df ''timestamp'' = Some ts" "to_datetime lib (select_rows ?k ts) = Inr T"
        "out = (case map_of df ''related_symbols'' of
              None \<Rightarrow> news_base lib ?k T df
            | Some rs \<Rightarrow> setitem (news_base lib ?k T df) ''related_symbols_list''
                     (map strip_symbols (str_split CHR '';'' (select_rows ?k rs))))"
      have "length T = ?n" using to_datetime_length[OF h(2)] len[OF h(1)] by simp
      note b = news_base_shape[OF a this, of lib]
      show ?thesis
      proof (cases "map_of df ''related_symbols''")
        case None
        with h(3) b show ?thesis by simp
      next
        case (Some rs)
        with h(3) b len[OF Some] show ?thesis
          by (simp add: setitem_nonempty all_len_setitem)
      qed
    qed
  next
    case SentimentLabels
    with assms(1) have "clean_sentiment_labels lib df = Inr out" by simp
    then show ?thesis
    proof (elim clean_sentiment_labels_InrE[OF _ assms(2)])
      fix ts T cs P
      assume h: "map_of df ''timestamp'' = Some ts" "to_datetime lib (select_rows ?k ts) = Inr T"
        "map_of df ''confidence_score'' = Some cs" "to_numeric lib (select_rows ?k cs) = Inr P"
        "out = (case map_of df ''sentiment_label'' of
              None \<Rightarrow> setitem (setitem (getitem_mask df ?k) ''timestamp'' T)
                         ''confidence_score'' P
            | Some sl \<Rightarrow> setitem (setitem (setitem (getitem_mask df ?k) ''timestamp'' T)
                         ''confidence_score'' P) ''sentiment_label''
                     (str_strip (str_lower (select_rows ?k sl))))"
      have l: "length T = ?n" "length P = ?n"
        using to_datetime_length[OF h(2)] to_numeric_length[OF h(4)] len[OF h(1)] len[OF h(3)]
        by simp_all
      show ?thesis
      proof (cases "map_of df ''sentiment_label''")
        case None
        with h(5) l a0 show ?thesis by (simp add: setitem_nonempty all_len_setitem)
      next
        case (Some sl)
        with h(5) l a0 len[OF Some] show ?thesis
          by (simp add: setitem_nonempty all_len_setitem)
      qed
    qed
  qed
qed

section \<open>Evaluating on the sample tables\<close>

lemmas sample_eval =
  clean_trades_def clean_news_def clean_sentiment_labels_def
  sample_pandas_def sample_pandas3_def sample_to_datetime_def
  to_datetime_def to_numeric_def one_per_row_def
  layout_of_def layouts_def utc_layout_def fits_def field_def
  accepts_kinds_def strip_column_def astype_str_def
  iloc_col0_def getitem_def setitem_def getitem_mask_def not_placeholder_def
  str_startswith_def startswith_def
  str_split_def str_strip_def str_lower_def strip_def is_space_def
  lower_def lower_char_def read_nat_def is_digit_def char_of_eq_iff

lemma sample_trades_clean:
  "clean sample_pandas Trades sample_trades = Inr sample_trades_cleaned"
  by (simp add: sample_trades_def sample_trades_cleaned_def sample_eval)

lemma sample_news_clean: "clean_news sample_pandas sample_news = Inr sample_news_cleaned"
  by (simp add: sample_news_def sample_news_cleaned_def sample_eval)

lemma sample_labels_clean:
  "clean sample_pandas SentimentLabels sample_labels = Inr sample_labels_cleaned"
  by (simp add: sample_labels_def sample_labels_cleaned_def sample_eval)

lemma sample_trades_wf: "wf_frame sample_trades"
  by (simp add: wf_frame_def sample_trades_def columns_def nrows_def)

lemma sample_news_wf: "wf_frame sample_news"
  by (simp add: wf_frame_def sample_news_def columns_def nrows_def)

lemma sample_labels_wf: "wf_frame sample_labels"
  by (simp add: wf_frame_def sample_labels_def columns_def nrows_def)

lemma sample_trades_first:
  "iloc_col0 sample_trades
     = Inr [Str ''2023-10-26T10:00:01Z'', Str ''...'', Str ''2023-10-26T10:00:02Z'',
            Str ''invalid-date'']"
  by (simp add: sample_trades_def iloc_col0_def)

lemma sample_news_first:
  "iloc_col0 sample_news = Inr [Str ''NEWS-001'', Str ''NEWS-002'', Str ''...'']"
  by (simp add: sample_news_def iloc_col0_def)

lemma sample_labels_first:
  "iloc_col0 sample_labels = Inr [Str ''NEWS-001'', Str ''...'', Str ''NEWS-003'']"
  by (simp add: sample_labels_def iloc_col0_def)

section \<open>Placeholder rows\<close>

text \<open>
  Claim C1, as amended. Whenever a cleaner returns a table, it has removed exactly the
  rows whose first cell, in the string form of its original value, starts with three
  dots: the row count goes down by the number of those rows, every column of the input is
  still there with that many rows, and every column the cleaner does not assign to holds
  the original values of exactly the other rows, in order.
\<close>

theorem placeholder_rows_removed:
  assumes "clean lib sch df = Inr out" and "wf_frame df" and "iloc_col0 df = Inr first"
  shows "nrows out = nrows df - length (filter (is_placeholder lib) first)
       \<and> (\<forall>c s. map_of df c = Some s \<longrightarrow>
             (\<exists>s'. map_of out c = Some s' \<and> length s' = nrows out))
       \<and> (\<forall>c s. map_of df c = Some s \<and> c \<notin> set (rewritten sch) \<longrightarrow>
             map_of out c =
               Some (nths s {i. i < length first \<and> \<not> is_placeholder lib (first ! i)}))"
proof -
  let ?k = "not_placeholder lib first"
  have n: "nrows df = length first" using assms(3) by (simp add: iloc_col0_Inr)
  have a: "all_len (length first) df" using wf_all_len[OF assms(2)] n by simp
  have sh: "out \<noteq> []" "all_len (length (filter id ?k)) out"
    using clean_shape[OF assms(1,3) a] by simp_all
  have rows: "nrows out = length (filter id ?k)"
    using all_len_nrows[OF sh(2,1)] .
  have idx: "{i. i < length ?k \<and> ?k ! i}
             = {i. i < length first \<and> \<not> is_placeholder lib (first ! i)}"
    by (auto simp: not_placeholder_nth)
  show ?thesis
  proof (intro conjI allI impI)
    show "nrows out = nrows df - length (filter (is_placeholder lib) first)"
      using rows n by (simp add: kept_count)
  next
    fix c s
    assume c: "map_of df c = Some s"
    from clean_keeps_columns[OF assms(1,3) c] obtain s' where s': "map_of out c = Some s'" ..
    with all_len_lookup[OF sh(2) s'] rows
    show "\<exists>s'. map_of out c = Some s' \<and> length s' = nrows out" by simp
  next
    fix c s
    assume "map_of df c = Some s \<and> c \<notin> set (rewritten sch)"
    then have c: "map_of df c = Some s" and r: "c \<notin> set (rewritten sch)" by simp_all
    have "length s = length ?k" using all_len_lookup[OF a c] by simp
    then have "select_rows ?k s = nths s {i. i < length ?k \<and> ?k ! i}"
      by (simp add: select_rows_nths)
    with clean_untouched[OF assms(1,3) c r] idx
    show "map_of out c =
            Some (nths s {i. i < length first \<and> \<not> is_placeholder lib (first ! i)})"
      by simp
  qed
qed

theorem placeholder_rows_removed_witness:
  "clean sample_pandas Trades sample_trades = Inr sample_trades_cleaned
   \<and> nrows sample_trades_cleaned = nrows sample_trades - 1
   \<and> clean sample_pandas News sample_news = Inr sample_news_cleaned
   \<and> nrows sample_news_cleaned = nrows sample_news - 1
   \<and> clean sample_pandas SentimentLabels sample_labels = Inr sample_labels_cleaned
   \<and> nrows sample_labels_cleaned = nrows sample_labels - 1"
proof -
  have n: "clean sample_pandas News sample_news = Inr sample_news_cleaned"
    using sample_news_clean by simp
  have p: "is_placeholder sample_pandas (Str ''...'')"
    "\<And>x. \<not> startswith x ''...'' \<Longrightarrow> \<not> is_placeholder sample_pandas (Str x)"
    by (simp_all add: is_placeholder_def startswith_def)
  have "nrows sample_trades_cleaned = nrows sample_trades - 1"
    using placeholder_rows_removed[OF sample_trades_clean sample_trades_wf sample_trades_first]
    by (simp add: p startswith_def)
  moreover have "nrows sample_news_cleaned = nrows sample_news - 1"
    using placeholder_rows_removed[OF n sample_news_wf sample_news_first]
    by (simp add: p startswith_def)
  moreover have "nrows sample_labels_cleaned = nrows sample_labels - 1"
    using placeholder_rows_removed[OF sample_labels_clean sample_labels_wf sample_labels_first]
    by (simp add: p startswith_def)
  ultimately show ?thesis
    using sample_trades_clean n sample_labels_clean by simp
qed

text \<open>
  The claim as stated, for every input table, fails where the cleaner returns no table:
  on a table without a timestamp column it raises \<open>KeyError\<close>, and there is no output
  whose rows could be counted.
\<close>

theorem no_output_without_timestamp:
  "clean sample_pandas Trades sample_trades_no_timestamp = Inl (KeyError ''timestamp'')
   \<and> clean sample_pandas News sample_trades_no_timestamp = Inl (KeyError ''timestamp'')
   \<and> clean sample_pandas SentimentLabels sample_trades_no_timestamp
       = Inl (KeyError ''timestamp'')"
  by (simp add: sample_trades_no_timestamp_def sample_eval)

section \<open>The parsed symbol list\<close>

lemma split_nonempty: "split d s \<noteq> []"
  by (induction s) (auto split: list.splits)

lemma parsed_symbols_eq: "strip_symbols (str_method (\<lambda>x. Lst (split d x)) v)
   = (case v of Str s \<Rightarrow> Lst (map strip (split d s)) | Missing m \<Rightarrow> Missing m | _ \<Rightarrow> Missing NaN)"
  by (cases v) auto

lemma symbols_column:
  "map strip_symbols (str_split CHR '';'' s) = map parsed_symbols s"
  unfolding str_split_def by (induction s) (auto simp: parsed_symbols_eq split: cell.splits)

lemma clean_news_symbols:
  assumes "clean_news lib df = Inr out" and "iloc_col0 df = Inr first"
    and "map_of df ''related_symbols'' = Some rs"
  shows "map_of out ''related_symbols_list''
         = Some (map parsed_symbols (select_rows (not_placeholder lib first) rs))"
  using assms(1,3)
  by (elim clean_news_InrE[OF _ assms(2)]) (simp add: map_of_setitem symbols_column)

text \<open>
  Claim C8, as amended. When the news cleaner returns a table and the input has a symbol
  column, the new column \<open>related_symbols_list\<close> holds, for each row kept: the ordered
  list of the trimmed pieces between semicolons when the symbol value is a string, the
  value itself when it is missing, and \<open>NaN\<close> for any other value; never the empty
  list. The symbol column itself keeps its original values.
\<close>

theorem related_symbols_parsed:
  assumes "clean_news lib df = Inr out" and "iloc_col0 df = Inr first"
    and "map_of df ''related_symbols'' = Some rs"
  shows "map_of out ''related_symbols_list''
           = Some (map parsed_symbols (select_rows (not_placeholder lib first) rs))
       \<and> map_of out ''related_symbols'' = Some (select_rows (not_placeholder lib first) rs)
       \<and> parsed_symbols v \<noteq> Lst []
       \<and> parsed_symbols (Str ''BTC-USD;ETH-USD'' :: ('n, 't) cell)
           = Lst [''BTC-USD'', ''ETH-USD'']"
proof (intro conjI)
  show "map_of out ''related_symbols_list''
           = Some (map parsed_symbols (select_rows (not_placeholder lib first) rs))"
    using assms by (rule clean_news_symbols)
  have "clean lib News df = Inr out" using assms(1) by simp
  from clean_untouched[OF this assms(2,3)]
  show "map_of out ''related_symbols'' = Some (select_rows (not_placeholder lib first) rs)"
    by simp
  show "parsed_symbols v \<noteq> Lst []"
    by (cases v) (simp_all add: split_nonempty)
  show "parsed_symbols (Str ''BTC-USD;ETH-USD'' :: ('n, 't) cell) = Lst [''BTC-USD'', ''ETH-USD'']"
    by (simp add: strip_def is_space_def)
qed

lemma sample_news_symbols:
  "map_of sample_news ''related_symbols'' = Some [Str ''BTC-USD;ETH-USD'', Num 5, Str ''row'']"
  by (simp add: sample_news_def)

theorem related_symbols_parsed_witness:
  "clean_news sample_pandas sample_news = Inr sample_news_cleaned
   \<and> map_of sample_news_cleaned ''related_symbols_list''
       = Some (map parsed_symbols [Str ''BTC-USD;ETH-USD'', Num 5])"
proof -
  note t = related_symbols_parsed[OF sample_news_clean sample_news_first sample_news_symbols,
             THEN conjunct1]
  have "select_rows (not_placeholder sample_pandas [Str ''NEWS-001'', Str ''NEWS-002'', Str ''...''])
          [Str ''BTC-USD;ETH-USD'', Num 5, Str ''row'']
        = [Str ''BTC-USD;ETH-USD'', Num 5 :: (nat, string) cell]"
    by (simp add: not_placeholder_def str_startswith_def startswith_def astype_str_def)
  with t sample_news_clean show ?thesis by simp
qed

text \<open>
  The claim as stated fails for a value that is neither a string nor missing: the number
  in the second row does not pass through, the accessor's \<open>split\<close> has already turned
  it into \<open>NaN\<close> when the lambda sees it.
\<close>

theorem number_among_symbols_becomes_NaN:
  "clean_news sample_pandas sample_news = Inr sample_news_cleaned
   \<and> map_of sample_news ''related_symbols'' = Some [Str ''BTC-USD;ETH-USD'', Num 5, Str ''row'']
   \<and> map_of sample_news_cleaned ''related_symbols_list''
       = Some [Lst [''BTC-USD'', ''ETH-USD''], Missing NaN]"
  using sample_news_clean by (simp add: sample_news_def sample_news_cleaned_def)

section \<open>Missing columns\<close>

lemma to_datetime_Inl: "to_datetime lib s = Inl e \<Longrightarrow> \<exists>x. e = Raised x"
  unfolding to_datetime_def by (auto split: sum.splits)

lemma to_numeric_Inl: "to_numeric lib s = Inl e \<Longrightarrow> \<exists>x. e = Raised x"
  unfolding to_numeric_def by (auto split: sum.splits)

lemma clean_trades_missing:
  assumes "df \<noteq> []"
  shows "(''timestamp'' \<notin> set (columns df) \<longrightarrow> clean_trades lib df = Inl (KeyError ''timestamp''))
       \<and> (clean_trades lib df = Inl (KeyError c) \<longrightarrow>
            find (\<lambda>r. r \<notin> set (columns df)) [''timestamp'', ''price'', ''volume''] = Some c)
       \<and> (find (\<lambda>r. r \<notin> set (columns df)) [''timestamp'', ''price'', ''volume''] = Some c \<longrightarrow>
            clean_trades lib df = Inl (KeyError c) \<or> (\<exists>x. clean_trades lib df = Inl (Raised x)))"
proof -
  from assms obtain first where f: "iloc_col0 df = Inr first" using nonempty_iloc by blast
  show ?thesis
    unfolding clean_trades_cases[OF f]
    by (auto simp: map_of_None_columns[symmetric] split: option.splits sum.splits
             dest!: to_datetime_Inl to_numeric_Inl)
qed

lemma clean_news_missing:
  assumes "df \<noteq> []"
  shows "(''timestamp'' \<notin> set (columns df) \<longrightarrow> clean_news lib df = Inl (KeyError ''timestamp''))
       \<and> (clean_news lib df = Inl (KeyError c) \<longrightarrow>
            find (\<lambda>r. r \<notin> set (columns df)) [''timestamp''] = Some c)
       \<and> (find (\<lambda>r. r \<notin> set (columns df)) [''timestamp''] = Some c \<longrightarrow>
            clean_news lib df = Inl (KeyError c) \<or> (\<exists>x. clean_news lib df = Inl (Raised x)))"
proof -
  from assms obtain first where f: "iloc_col0 df = Inr first" using nonempty_iloc by blast
  show ?thesis
    unfolding clean_news_cases[OF f]
    by (auto simp: map_of_None_columns[symmetric] split: option.splits sum.splits if_splits
             dest!: to_datetime_Inl to_numeric_Inl)
qed

lemma clean_sentiment_labels_missing:
  assumes "df \<noteq> []"
  shows "(''timestamp'' \<notin> set (columns df) \<longrightarrow>
            clean_sentiment_labels lib df = Inl (KeyError ''timestamp''))
       \<and> (clean_sentiment_labels lib df = Inl (KeyError c) \<longrightarrow>
            find (\<lambda>r. r \<notin> set (columns df)) [''timestamp'', ''confidence_score''] = Some c)
       \<and> (find (\<lambda>r. r \<notin> set (columns df)) [''timestamp'', ''confidence_score''] = Some c \<longrightarrow>
            clean_sentiment_labels lib df = Inl (KeyError c)
            \<or> (\<exists>x. clean_sentiment_labels lib df = Inl (Raised x)))"
proof -
  from assms obtain first where f: "iloc_col0 df = Inr first" using nonempty_iloc by blast
  show ?thesis
    unfolding clean_sentiment_labels_cases[OF f] Let_def
    by (auto simp: map_of_None_columns[symmetric] split: option.splits sum.splits if_splits
             dest!: to_datetime_Inl to_numeric_Inl)
qed

text \<open>
  Claim C10, as amended. For a table with at least one column: a cleaner raises
  \<open>KeyError\<close> for the timestamp column whenever that column is absent; it raises
  \<open>KeyError\<close> for a column only if that column is the first of the columns it reads
  unconditionally (timestamp, then price and volume for trades, then confidence\_score
  for sentiment labels) that the table does not have; and when such a column is absent the
  cleaner never returns a table: it raises \<open>KeyError\<close> for that column, unless a
  conversion of an earlier column has raised an exception of the library before the
  lookup is reached. So a missing one of these is never skipped, and the absence of a text
  field never raises \<open>KeyError\<close>.
\<close>

theorem missing_required_column_raises:
  assumes "df \<noteq> []"
  shows "(''timestamp'' \<notin> set (columns df) \<longrightarrow> clean lib sch df = Inl (KeyError ''timestamp''))
       \<and> (clean lib sch df = Inl (KeyError c) \<longrightarrow>
            find (\<lambda>r. r \<notin> set (columns df)) (required sch) = Some c)
       \<and> (find (\<lambda>r. r \<notin> set (columns df)) (required sch) = Some c \<longrightarrow>
            clean lib sch df = Inl (KeyError c) \<or> (\<exists>x. clean lib sch df = Inl (Raised x)))"
  using clean_trades_missing[OF assms, of lib c] clean_news_missing[OF assms, of lib c]
    clean_sentiment_labels_missing[OF assms, of lib c]
  by (cases sch) simp_all

theorem missing_required_column_raises_witness:
  "sample_trades_no_price \<noteq> []
   \<and> clean sample_pandas Trades sample_trades_no_price = Inl (KeyError ''price'')
   \<and> find (\<lambda>r. r \<notin> set (columns sample_trades_no_price)) (required Trades) = Some ''price''"
proof -
  have ne: "sample_trades_no_price \<noteq> []"
    by (simp add: sample_trades_no_price_def)
  have e: "clean sample_pandas Trades sample_trades_no_price = Inl (KeyError ''price'')"
    by (simp add: sample_trades_no_price_def sample_eval)
  from missing_required_column_raises[OF ne, of sample_pandas Trades "''price''",
         THEN conjunct2, THEN conjunct1] e
  have "find (\<lambda>r. r \<notin> set (columns sample_trades_no_price)) (required Trades)
        = Some ''price''"
    by blast
  with e ne show ?thesis by blast
qed

text \<open>
  The claim as stated fails on the table without any column: it has no timestamp column,
  and the cleaners raise \<open>IndexError\<close> from \<open>iloc[:, 0]\<close>, before any column is
  looked up by name.
\<close>

theorem no_column_raises_IndexError:
  "''timestamp'' \<notin> set (columns ([] :: (nat, string) frame))
   \<and> clean sample_pandas Trades [] = Inl IndexError
   \<and> clean sample_pandas News [] = Inl IndexError
   \<and> clean sample_pandas SentimentLabels [] = Inl IndexError"
  by (simp add: columns_def clean_empty)

section \<open>Cells that do not parse\<close>








section \<open>Cleaning a cleaned table\<close>



lemma of_char_less_256: "(of_char c :: nat) < 256"
  by (metis of_char_mod_256 mod_less_divisor zero_less_numeral)























section \<open>Object identity\<close>

lemma heap_print [simp]: "heap (print m w) = heap w"
  by (simp add: print_def)

lemma stdout_print [simp]: "stdout (print m w) = stdout w @ [m]"
  by (simp add: print_def)

lemma heap_setitem_obj [simp]:
  "heap (setitem_obj r c s w) = (heap w)[r := setitem (heap w ! r) c s]"
  by (simp add: setitem_obj_def)

lemma stdout_setitem_obj [simp]: "stdout (setitem_obj r c s w) = stdout w"
  by (simp add: setitem_obj_def)






lemma apply_sentiment_to_news_absent:
  assumes "map_of (heap w ! df) text_column = None"
  shows "apply_sentiment_to_news lib df text_column w
         = (df, w\<lparr>stdout := stdout w @ [ApplyingLabeling text_column,
                                           ColumnNotFound text_column]\<rparr>)"
  using assms unfolding apply_sentiment_to_news_def Let_def getitem_def
  by (simp add: print_def)

lemma apply_sentiment_to_news_present:
  assumes "map_of (heap w ! df) text_column = Some text" and "df < length (heap w)"
  shows "fst (apply_sentiment_to_news lib df text_column w) = df
       \<and> heap (snd (apply_sentiment_to_news lib df text_column w))
           = (heap w)[df := labeled lib (heap w ! df) text_column text]"
  using assms
  unfolding apply_sentiment_to_news_def Let_def getitem_def labeled_def
  by (simp add: map_of_setitem comp_def)

section \<open>Labeling a table\<close>

text \<open>
  Claim C5. For every table and every column name the table does not have,
  \<open>apply_sentiment_to_news\<close> returns: it prints the line that names the missing column
  and returns the table it was given, the store of tables being exactly what it was.
\<close>

theorem missing_text_column_reported:
  assumes "text_column \<notin> set (columns (heap w ! df))"
  shows "fst (apply_sentiment_to_news lib df text_column w) = df
       \<and> heap (snd (apply_sentiment_to_news lib df text_column w)) = heap w
       \<and> stdout (snd (apply_sentiment_to_news lib df text_column w))
           = stdout w @ [ApplyingLabeling text_column, ColumnNotFound text_column]"
proof -
  have "map_of (heap w ! df) text_column = None"
    using assms by (simp add: map_of_None_columns)
  then show ?thesis by (simp add: apply_sentiment_to_news_absent)
qed

theorem missing_text_column_reported_witness:
  "''summary'' \<notin> set (columns (heap sample_world ! 0))
   \<and> fst (apply_sentiment_to_news sample_pandas 0 ''summary'' sample_world) = 0
   \<and> heap (snd (apply_sentiment_to_news sample_pandas 0 ''summary'' sample_world))
       = [sample_unlabeled]
   \<and> stdout (snd (apply_sentiment_to_news sample_pandas 0 ''summary'' sample_world))
       = [ApplyingLabeling ''summary'', ColumnNotFound ''summary'']"
proof -
  have a: "''summary'' \<notin> set (columns (heap sample_world ! 0))"
    by (simp add: sample_world_def sample_unlabeled_def columns_def)
  from missing_text_column_reported[OF a, of sample_pandas] a
  show ?thesis by (simp add: sample_world_def)
qed







lemma label_samples:
  "label_sentiment_keywords (Str ''Bitcoin Surges'' :: (nat, string) cell) = (''Positive'', 1)"
  "label_sentiment_keywords (Str ''nan'' :: (nat, string) cell) = (''Neutral'', 0)"
  "label_sentiment_keywords (Str '''' :: (nat, string) cell) = (''Neutral'', 0)"
  by code_simp+

lemma sample_unlabeled_headline:
  "map_of (heap sample_world ! 0) ''headline'' = Some [Str ''Bitcoin Surges'', Missing NaN]"
  by (simp add: sample_world_def sample_unlabeled_def)

lemma sample_labeled:
  "labeled sample_pandas sample_unlabeled ''headline'' [Str ''Bitcoin Surges'', Missing NaN]
   = [(''id'', [Str ''NEWS-001'', Str ''NEWS-002'']),
      (''headline'', [Str ''Bitcoin Surges'', Str ''nan'']),
      (''auto_sentiment_label'', [Str ''Positive'', Str ''Neutral'']),
      (''auto_sentiment_score'', [Num 1, Num 0])]"
  unfolding labeled_def Let_def
  by (simp add: sample_unlabeled_def fillna_def astype_str_def sample_pandas_def setitem_def
        label_samples del: label_sentiment_keywords.simps)

lemma sample_world_ref: "0 < length (heap sample_world)"
  by (simp add: sample_world_def)



text \<open>
  Claim C7. The source means to fill a missing text by the empty string before it
  classifies (its comment says so), but it calls \<open>astype(str)\<close> first. Under pandas 2
  that writes the missing value out as the string \<open>nan\<close>, \<open>fillna('')\<close> finds nothing
  to fill, and it is the text \<open>nan\<close> that is stored in the column and classified. The
  label is Neutral with score 0 all the same, since \<open>nan\<close> holds no marker word.
\<close>

theorem missing_text_classified_as_the_string_nan:
  "map_of (heap sample_world ! 0) ''headline'' = Some [Str ''Bitcoin Surges'', Missing NaN]
   \<and> map_of (heap (snd (apply_sentiment_to_news sample_pandas 0 ''headline'' sample_world)) ! 0)
         ''headline''
       = Some [Str ''Bitcoin Surges'', Str ''nan'']
   \<and> map_of (heap (snd (apply_sentiment_to_news sample_pandas 0 ''headline'' sample_world)) ! 0)
         ''auto_sentiment_label''
       = Some [Str ''Positive'', Str ''Neutral'']
   \<and> map_of (heap (snd (apply_sentiment_to_news sample_pandas 0 ''headline'' sample_world)) ! 0)
         ''auto_sentiment_score''
       = Some [Num 1, Num 0]"
proof -
  have "heap (snd (apply_sentiment_to_news sample_pandas 0 ''headline'' sample_world))
        = (heap sample_world)[0 := labeled sample_pandas (heap sample_world ! 0) ''headline''
                                     [Str ''Bitcoin Surges'', Missing NaN]]"
    using apply_sentiment_to_news_present[OF sample_unlabeled_headline sample_world_ref] by simp
  then show ?thesis
    using sample_unlabeled_headline by (simp add: sample_world_def sample_labeled)
qed

end
